theory Spec2Isabelle
  imports Complex_Main
begin

section \<open>Loss kernels of thinc (\<^verbatim>\<open>thinc/loss.py\<close>)\<close>

text \<open>
  The module computes, for a batch of predictions and truths, a gradient tensor and a
  scalar loss. The embedding follows the Python source function by function.

  Conventions of the model.
  \<^item> A two-dimensional array is its column count and the list of its rows. Its
    \<^verbatim>\<open>shape\<close> is (number of rows, number of columns). The elements of an argument of
    type \<^verbatim>\<open>Floats2d\<close> are finite numbers, taken as reals; the rounding of the 32-bit
    floats is not modelled. The cross-entropy and the L2 kernel are computed in exact
    arithmetic. The cosine kernel, which squares and divides, is computed with the
    infinities and not-a-number of the floats (type \<open>fl\<close> below): a value beyond the
    range of the 32-bit floats is an infinity, a quotient \<open>0 / 0\<close> is not a number, and
    nothing is raised there.
  \<^item> An exception of the source is a value \<open>Inl e\<close> of the result; \<open>Inr v\<close> is a
    normal return.
  \<^item> The arguments have the types the source annotates them with. Integer labels and
    indices are within the range of the 32-bit integers of the arrays.
\<close>

subsection \<open>Arrays\<close>

record 'a array2d =
  ncols :: nat
  rows :: "'a list list"

type_synonym floats2d = "real array2d"

definition wf2d :: "'a array2d \<Rightarrow> bool" where
  "wf2d a = list_all (\<lambda>r. length r = ncols a) (rows a)"

definition shape :: "'a array2d \<Rightarrow> nat \<times> nat" where
  "shape a = (length (rows a), ncols a)"

text \<open>\<^verbatim>\<open>xp.zeros(shape, dtype="f")\<close> and the array filled with one value.\<close>

definition full :: "nat \<times> nat \<Rightarrow> real \<Rightarrow> floats2d" where
  "full s v = \<lparr>ncols = snd s, rows = replicate (fst s) (replicate (snd s) v)\<rparr>"

definition zeros :: "nat \<times> nat \<Rightarrow> floats2d" where
  "zeros s = full s 0"

subsection \<open>Errors\<close>

text \<open>
  The messages of the \<^verbatim>\<open>ValueError\<close>s the module raises, one tag per message. The
  specification calls \<open>NoNames\<close> a configuration error, the \<open>...Shapes\<close> and
  \<open>SeqLength\<close> messages shape errors and the two \<open>...Interval\<close> messages range
  errors. \<open>Broadcast\<close> is the \<^verbatim>\<open>ValueError\<close> of the array library for operands that
  cannot be broadcast together.
\<close>

datatype message =
    NoNames
  | CCShapes
  | GuessesInterval
  | TruthsInterval
  | SeqLength
  | L2Shapes
  | CosineShapes
  | Broadcast

datatype error =
    ValueError message
  | KeyError string
  | IndexError
  | TypeError
  | NameError

subsection \<open>Elementwise operations of the array library\<close>

definition map2d :: "('a \<Rightarrow> 'b) \<Rightarrow> 'a array2d \<Rightarrow> 'b array2d" where
  "map2d f a = \<lparr>ncols = ncols a, rows = map (map f) (rows a)\<rparr>"

text \<open>A binary operation on two arrays of one shape.\<close>

definition zip2d :: "('a \<Rightarrow> 'b \<Rightarrow> 'c) \<Rightarrow> 'a array2d \<Rightarrow> 'b array2d \<Rightarrow> 'c array2d" where
  "zip2d f a b = \<lparr>ncols = ncols a, rows = map2 (map2 f) (rows a) (rows b)\<rparr>"

text \<open>\<^verbatim>\<open>a.any()\<close>: whether some element is not zero.\<close>

definition any2d :: "floats2d \<Rightarrow> bool" where
  "any2d a = list_ex (\<lambda>r. list_ex (\<lambda>x. x \<noteq> 0) r) (rows a)"

text \<open>\<^verbatim>\<open>(a ** 2).sum()\<close>.\<close>

definition sum_squares :: "floats2d \<Rightarrow> real" where
  "sum_squares a = sum_list (map (\<lambda>x. x ^ 2) (concat (rows a)))"

text \<open>
  Broadcasting of a two-dimensional operand \<open>m\<close> into an in-place operation on an array
  of shape \<open>s\<close>: each dimension of \<open>m\<close> is the one of \<open>s\<close> or is 1, and a dimension of
  1 is repeated.
\<close>

definition broadcastable :: "nat \<times> nat \<Rightarrow> nat \<times> nat \<Rightarrow> bool" where
  "broadcastable sm s =
     ((fst sm = fst s \<or> fst sm = 1) \<and> (snd sm = snd s \<or> snd sm = 1))"

definition stretch :: "nat \<Rightarrow> 'a list \<Rightarrow> 'a list" where
  "stretch n xs = (case xs of [x] \<Rightarrow> replicate n x | _ \<Rightarrow> xs)"

definition broadcast_to :: "nat \<times> nat \<Rightarrow> floats2d \<Rightarrow> floats2d" where
  "broadcast_to s m =
     \<lparr>ncols = snd s, rows = stretch (fst s) (map (stretch (snd s)) (rows m))\<rparr>"

text \<open>\<^verbatim>\<open>difference *= m\<close>.\<close>

definition imul :: "floats2d \<Rightarrow> floats2d \<Rightarrow> error + floats2d" where
  "imul d m =
     (if broadcastable (shape m) (shape d)
      then Inr (zip2d (*) d (broadcast_to (shape d) m))
      else Inl (ValueError Broadcast))"

subsection \<open>Truths and the converter\<close>

text \<open>
  \<^verbatim>\<open>IntsOrFloatsOrStrs = Union[Ints1d, Floats2d, List[int], List[str]]\<close>. The empty
  Python list is \<open>ListInt []\<close> as well as \<open>ListStr []\<close>.
\<close>

datatype truths =
    Ints1d "int list"
  | Floats2d floats2d
  | ListInt "int list"
  | ListStr "string list"

record CategoricalCrossentropy =
  normalize :: bool
  names :: "string list option"
  name_to_i :: "(string \<rightharpoonup> int) option"

text \<open>\<^verbatim>\<open>{name: i for i, name in enumerate(names)}\<close>: a later duplicate wins.\<close>

definition build_name_to_i :: "string list \<Rightarrow> (string \<rightharpoonup> int)" where
  "build_name_to_i ns =
     fold (\<lambda>(i, name) m. m(name \<mapsto> int i)) (enumerate 0 ns) Map.empty"

definition CategoricalCrossentropy_init ::
  "bool \<Rightarrow> string list option \<Rightarrow> CategoricalCrossentropy" where
  "CategoricalCrossentropy_init nrm ns =
     \<lparr>normalize = nrm, names = ns,
      name_to_i = (case ns of None \<Rightarrow> None | Some l \<Rightarrow> Some (build_name_to_i l))\<rparr>"

text \<open>
  Modelled from the spec: \<^verbatim>\<open>to_categorical\<close> of \<^verbatim>\<open>thinc/util.py\<close>, which is not among
  the sources. The specification: an integer tensor of class indices is expanded "to
  dense one-hot form with width = predictions' last dimension; index i maps to a unit
  vector with 1.0 at position i, 0.0 elsewhere".
\<close>

definition one_hot :: "nat \<Rightarrow> int \<Rightarrow> real list" where
  "one_hot n i = map (\<lambda>j. if int j = i then 1 else 0) [0..<n]"

text \<open>
  Modelled from the spec: \<^verbatim>\<open>to_categorical(labels, n_classes)\<close>, one such row a label.
\<close>

definition to_categorical :: "int list \<Rightarrow> nat \<Rightarrow> floats2d" where
  "to_categorical labels n_classes =
     \<lparr>ncols = n_classes, rows = map (one_hot n_classes) labels\<rparr>"

text \<open>\<^verbatim>\<open>[self._name_to_i[name] for name in truths]\<close>: the first absent key raises.\<close>

fun lookup_all :: "(string \<rightharpoonup> int) \<Rightarrow> string list \<Rightarrow> error + int list" where
  "lookup_all d [] = Inr []"
| "lookup_all d (name # rest) =
     (case d name of
        None \<Rightarrow> Inl (KeyError name)
      | Some i \<Rightarrow> (case lookup_all d rest of Inl e \<Rightarrow> Inl e | Inr is \<Rightarrow> Inr (i # is)))"

text \<open>
  \<^verbatim>\<open>convert_truths\<close>. The predictions have \<^verbatim>\<open>ndim\<close> 2; an integer array made of a list of
  labels or given as \<^verbatim>\<open>Ints1d\<close> has \<^verbatim>\<open>ndim\<close> 1 and is expanded, a \<^verbatim>\<open>Floats2d\<close> has
  \<^verbatim>\<open>ndim\<close> 2 and is returned as it is. The string branch is entered by a list that is
  not empty and whose first element is a string. Subscripting a table that is
  \<^verbatim>\<open>None\<close> is a \<^verbatim>\<open>TypeError\<close>; a kernel built by \<^verbatim>\<open>__init__\<close> with names has a table.
\<close>

definition convert_truths ::
  "CategoricalCrossentropy \<Rightarrow> truths \<Rightarrow> floats2d \<Rightarrow> error + floats2d" where
  "convert_truths self t guesses =
     (let n_classes = snd (shape guesses) in
      case t of
        Floats2d a \<Rightarrow> Inr a
      | Ints1d labels \<Rightarrow> Inr (to_categorical labels n_classes)
      | ListInt labels \<Rightarrow> Inr (to_categorical labels n_classes)
      | ListStr strs \<Rightarrow>
          (if strs \<noteq> [] then
             (case names self of
                None \<Rightarrow> Inl (ValueError NoNames)
              | Some _ \<Rightarrow>
                  (case name_to_i self of
                     None \<Rightarrow> Inl TypeError
                   | Some d \<Rightarrow>
                       (case lookup_all d strs of
                          Inl e \<Rightarrow> Inl e
                        | Inr labels \<Rightarrow> Inr (to_categorical labels n_classes))))
           else Inr (to_categorical [] n_classes)))"

subsection \<open>The mask builder\<close>

text \<open>\<^verbatim>\<open>IntsOrFloats = Union[Ints1d, Floats2d]\<close>; a \<^verbatim>\<open>Floats2d\<close> has dtype \<^verbatim>\<open>"f"\<close>.\<close>

datatype missing =
    MissingFloats floats2d
  | MissingInts "int list"

text \<open>
  An integer index into an axis of length \<open>n\<close>: a negative index counts from the end,
  an index outside \<open>[-n, n)\<close> is an \<^verbatim>\<open>IndexError\<close>.
\<close>

definition axis_index :: "nat \<Rightarrow> int \<Rightarrow> nat option" where
  "axis_index n i =
     (if 0 \<le> i \<and> i < int n then Some (nat i)
      else if - int n \<le> i \<and> i < 0 then Some (nat (int n + i))
      else None)"

text \<open>
  \<^verbatim>\<open>a[idx] = v\<close> with an integer array \<open>idx\<close>: the rows it lists are set to \<open>v\<close>.
  \<open>sequence\<close> collects the row numbers, or is \<open>None\<close> when one is out of range.
\<close>

fun sequence :: "'a option list \<Rightarrow> 'a list option" where
  "sequence [] = Some []"
| "sequence (x # xs) =
     (case x of
        None \<Rightarrow> None
      | Some v \<Rightarrow> (case sequence xs of None \<Rightarrow> None | Some vs \<Rightarrow> Some (v # vs)))"

definition assign_rows :: "int list \<Rightarrow> real \<Rightarrow> floats2d \<Rightarrow> error + floats2d" where
  "assign_rows idx v a =
     (case sequence (map (axis_index (length (rows a))) idx) of
        None \<Rightarrow> Inl IndexError
      | Some rs \<Rightarrow>
          Inr \<lparr>ncols = ncols a,
               rows = map (\<lambda>(r, row). if r \<in> set rs then map (\<lambda>_. v) row else row)
                        (enumerate 0 (rows a))\<rparr>)"

text \<open>\<^verbatim>\<open>_make_mask\<close>.\<close>

definition make_mask :: "missing \<Rightarrow> nat \<times> nat \<Rightarrow> error + floats2d" where
  "make_mask m s =
     (case m of
        MissingFloats a \<Rightarrow> Inr a
      | MissingInts idx \<Rightarrow> assign_rows idx 1 (zeros s))"

subsection \<open>CategoricalCrossentropy\<close>

text \<open>
  \<^verbatim>\<open>get_grad\<close>. The two interval checks are written as the source has them:
  \<^verbatim>\<open>guesses.any() > 1 or guesses.any() < 0\<close> compares the truth value of
  \<^verbatim>\<open>guesses.any()\<close>, as the number 0 or 1, with 1 and with 0.
\<close>

definition CategoricalCrossentropy_get_grad ::
  "CategoricalCrossentropy \<Rightarrow> floats2d \<Rightarrow> truths \<Rightarrow> missing option \<Rightarrow> error + floats2d" where
  "CategoricalCrossentropy_get_grad self guesses t mis =
     (case convert_truths self t guesses of
        Inl e \<Rightarrow> Inl e
      | Inr target \<Rightarrow>
          if shape guesses \<noteq> shape target then Inl (ValueError CCShapes)
          else if (of_bool (any2d guesses) :: int) > 1 \<or> (of_bool (any2d guesses) :: int) < 0
            then Inl (ValueError GuessesInterval)
          else if (of_bool (any2d target) :: int) > 1 \<or> (of_bool (any2d target) :: int) < 0
            then Inl (ValueError TruthsInterval)
          else
            (case (case mis of
                     None \<Rightarrow> Inr (zip2d (-) guesses target)
                   | Some m \<Rightarrow>
                       (case make_mask m (shape guesses) of
                          Inl e \<Rightarrow> Inl e
                        | Inr msk \<Rightarrow>
                            imul (zip2d (-) guesses target) (map2d (\<lambda>x. 1 - x) msk))) of
               Inl e \<Rightarrow> Inl e
             | Inr difference \<Rightarrow>
                 Inr (if normalize self
                      then map2d (\<lambda>x. x / real (fst (shape guesses))) difference
                      else difference)))"

definition get_loss_from_grad :: "floats2d \<Rightarrow> real" where
  "get_loss_from_grad d_truth = sum_squares d_truth"

definition CategoricalCrossentropy_get_loss ::
  "CategoricalCrossentropy \<Rightarrow> floats2d \<Rightarrow> truths \<Rightarrow> missing option \<Rightarrow> error + real" where
  "CategoricalCrossentropy_get_loss self guesses t mis =
     (case CategoricalCrossentropy_get_grad self guesses t mis of
        Inl e \<Rightarrow> Inl e
      | Inr d_truth \<Rightarrow> Inr (get_loss_from_grad d_truth))"

definition CategoricalCrossentropy_call ::
  "CategoricalCrossentropy \<Rightarrow> floats2d \<Rightarrow> truths \<Rightarrow> missing option
     \<Rightarrow> error + (floats2d \<times> real)" where
  "CategoricalCrossentropy_call self guesses t mis =
     (case CategoricalCrossentropy_get_grad self guesses t mis of
        Inl e \<Rightarrow> Inl e
      | Inr d_truth \<Rightarrow> Inr (d_truth, get_loss_from_grad d_truth))"

subsection \<open>SequenceCategoricalCrossentropy\<close>

record SequenceCategoricalCrossentropy =
  cc :: CategoricalCrossentropy

definition SequenceCategoricalCrossentropy_init ::
  "bool \<Rightarrow> string list option \<Rightarrow> SequenceCategoricalCrossentropy" where
  "SequenceCategoricalCrossentropy_init nrm ns = \<lparr>cc = CategoricalCrossentropy_init nrm ns\<rparr>"

text \<open>
  The loop \<^verbatim>\<open>for yh, y in zip(guesses, truths): out.append(f(yh, y))\<close>: \<^verbatim>\<open>zip\<close> stops
  at the end of the shorter list, and the first step that raises ends the loop.
\<close>

fun zip_loop :: "('a \<Rightarrow> 'b \<Rightarrow> error + 'c) \<Rightarrow> 'a list \<Rightarrow> 'b list \<Rightarrow> error + 'c list" where
  "zip_loop f (yh # gs) (y # ts) =
     (case f yh y of
        Inl e \<Rightarrow> Inl e
      | Inr v \<Rightarrow> (case zip_loop f gs ts of Inl e \<Rightarrow> Inl e | Inr vs \<Rightarrow> Inr (v # vs)))"
| "zip_loop f _ _ = Inr []"

definition SequenceCategoricalCrossentropy_get_grad ::
  "SequenceCategoricalCrossentropy \<Rightarrow> floats2d list \<Rightarrow> truths list
     \<Rightarrow> error + floats2d list" where
  "SequenceCategoricalCrossentropy_get_grad self guesses ts =
     (if length guesses \<noteq> length ts then Inl (ValueError SeqLength)
      else zip_loop (\<lambda>yh y. CategoricalCrossentropy_get_grad (cc self) yh y None) guesses ts)"

definition SequenceCategoricalCrossentropy_get_loss ::
  "SequenceCategoricalCrossentropy \<Rightarrow> floats2d list \<Rightarrow> truths list \<Rightarrow> error + real list" where
  "SequenceCategoricalCrossentropy_get_loss self guesses ts =
     zip_loop (\<lambda>yh y. CategoricalCrossentropy_get_loss (cc self) yh y None) guesses ts"

definition SequenceCategoricalCrossentropy_call ::
  "SequenceCategoricalCrossentropy \<Rightarrow> floats2d list \<Rightarrow> truths list
     \<Rightarrow> error + (floats2d list \<times> real list)" where
  "SequenceCategoricalCrossentropy_call self guesses ts =
     (case SequenceCategoricalCrossentropy_get_grad self guesses ts of
        Inl e \<Rightarrow> Inl e
      | Inr grads \<Rightarrow>
          (case SequenceCategoricalCrossentropy_get_loss self guesses ts of
             Inl e \<Rightarrow> Inl e
           | Inr losses \<Rightarrow> Inr (grads, losses)))"

subsection \<open>L2Distance\<close>

record L2Distance =
  l2_normalize :: bool

definition L2Distance_init :: "bool \<Rightarrow> L2Distance" where
  "L2Distance_init nrm = \<lparr>l2_normalize = nrm\<rparr>"

definition L2Distance_get_grad :: "L2Distance \<Rightarrow> floats2d \<Rightarrow> floats2d \<Rightarrow> error + floats2d" where
  "L2Distance_get_grad self guesses t =
     (if shape guesses \<noteq> shape t then Inl (ValueError L2Shapes)
      else
        (let difference = zip2d (-) guesses t in
         Inr (if l2_normalize self
              then map2d (\<lambda>x. x / real (fst (shape guesses))) difference
              else difference)))"

definition L2Distance_get_loss :: "L2Distance \<Rightarrow> floats2d \<Rightarrow> floats2d \<Rightarrow> error + real" where
  "L2Distance_get_loss self guesses t =
     (if shape guesses \<noteq> shape t then Inl (ValueError L2Shapes)
      else
        (case L2Distance_get_grad self guesses t of
           Inl e \<Rightarrow> Inl e
         | Inr d_truth \<Rightarrow> Inr (sum_squares d_truth)))"

definition L2Distance_call ::
  "L2Distance \<Rightarrow> floats2d \<Rightarrow> floats2d \<Rightarrow> error + (floats2d \<times> real)" where
  "L2Distance_call self guesses t =
     (case L2Distance_get_grad self guesses t of
        Inl e \<Rightarrow> Inl e
      | Inr g \<Rightarrow>
          (case L2Distance_get_loss self guesses t of
             Inl e \<Rightarrow> Inl e
           | Inr l \<Rightarrow> Inr (g, l)))"

subsection \<open>Values that are not finite\<close>

text \<open>
  The cosine kernel squares its inputs and divides by norms, so its intermediate values
  can leave the range of the 32-bit floats and its divisors can be zero. There the
  array library returns an infinity or not-a-number and goes on; it raises nothing.
  \<open>Inf True\<close> is the positive infinity, \<open>Inf False\<close> the negative one. An operation
  on finite values is computed exactly and then put into the range of the 32-bit
  floats (\<open>rng\<close>): beyond the largest float, \<^verbatim>\<open>(2 - 2**-23) * 2**127\<close>, the result
  is an infinity. The rounding of a result that is in range is not modelled. The zero
  divisors of this module are norms and their products, so they are positive zeros;
  the sign of a zero result is not modelled.
\<close>

datatype fl = Finite real | Inf bool | NaN

definition flt_max :: real where
  "flt_max = (2 - 1 / 2 ^ 23) * 2 ^ 127"

definition rng :: "real \<Rightarrow> fl" where
  "rng x = (if \<bar>x\<bar> \<le> flt_max then Finite x else Inf (0 < x))"

fun fdiv :: "fl \<Rightarrow> fl \<Rightarrow> fl" where
  "fdiv (Finite a) (Finite b) =
     (if b = 0 then (if a = 0 then NaN else Inf (0 < a)) else rng (a / b))"
| "fdiv (Inf s) (Finite b) = Inf (s = (0 \<le> b))"
| "fdiv (Finite a) (Inf t) = Finite 0"
| "fdiv _ _ = NaN"

fun fmul :: "fl \<Rightarrow> fl \<Rightarrow> fl" where
  "fmul (Finite a) (Finite b) = rng (a * b)"
| "fmul (Finite a) (Inf t) = (if a = 0 then NaN else Inf (t = (0 < a)))"
| "fmul (Inf s) (Finite b) = (if b = 0 then NaN else Inf (s = (0 < b)))"
| "fmul (Inf s) (Inf t) = Inf (s = t)"
| "fmul _ _ = NaN"

fun fadd :: "fl \<Rightarrow> fl \<Rightarrow> fl" where
  "fadd (Finite a) (Finite b) = rng (a + b)"
| "fadd (Finite a) (Inf t) = Inf t"
| "fadd (Inf s) (Finite b) = Inf s"
| "fadd (Inf s) (Inf t) = (if s = t then Inf s else NaN)"
| "fadd _ _ = NaN"

fun fneg :: "fl \<Rightarrow> fl" where
  "fneg (Finite a) = Finite (- a)"
| "fneg (Inf s) = Inf (\<not> s)"
| "fneg NaN = NaN"

definition fsub :: "fl \<Rightarrow> fl \<Rightarrow> fl" where
  "fsub a b = fadd a (fneg b)"

fun fabs :: "fl \<Rightarrow> fl" where
  "fabs (Finite a) = Finite \<bar>a\<bar>"
| "fabs (Inf s) = Inf True"
| "fabs NaN = NaN"

fun fsqrt :: "fl \<Rightarrow> fl" where
  "fsqrt (Finite a) = (if a < 0 then NaN else Finite (sqrt a))"
| "fsqrt (Inf s) = (if s then Inf True else NaN)"
| "fsqrt NaN = NaN"

text \<open>\<^verbatim>\<open>a.sum()\<close> of such values, added from left to right.\<close>

definition fsum :: "fl list \<Rightarrow> fl" where
  "fsum xs = foldl fadd (Finite 0) xs"

subsection \<open>CosineDistance\<close>

record CosineDistance =
  cos_normalize :: bool
  ignore_zeros :: bool

definition CosineDistance_init :: "bool \<Rightarrow> bool \<Rightarrow> CosineDistance" where
  "CosineDistance_init nrm iz = \<lparr>cos_normalize = nrm, ignore_zeros = iz\<rparr>"

text \<open>The small constant \<^verbatim>\<open>1e-8\<close>, and a row of \<^verbatim>\<open>a + 1e-8\<close>.\<close>

definition eps :: real where
  "eps = 1 / 10 ^ 8"

definition shift_row :: "real list \<Rightarrow> fl list" where
  "shift_row r = map (\<lambda>x. fadd (Finite x) (Finite eps)) r"

text \<open>
  The reductions along \<^verbatim>\<open>axis=1\<close> with \<^verbatim>\<open>keepdims=True\<close> give one value a row, which
  is then broadcast along that row: the model computes row by row.
  \<^verbatim>\<open>xp.linalg.norm(a, axis=1)\<close> is the square root of the sum of the squares of each row.
\<close>

definition row_norm :: "fl list \<Rightarrow> fl" where
  "row_norm r = fsqrt (fsum (map (\<lambda>x. fmul x x) r))"

text \<open>\<^verbatim>\<open>(yh * y).sum(axis=1)\<close>, a row.\<close>

definition row_dot :: "fl list \<Rightarrow> fl list \<Rightarrow> fl" where
  "row_dot yh y = fsum (map2 fmul yh y)"

text \<open>\<^verbatim>\<open>cosine = (yh * y).sum(axis=1, keepdims=True) / mul_norms\<close>, a row.\<close>

definition cosine_row :: "fl list \<Rightarrow> fl list \<Rightarrow> fl" where
  "cosine_row yh y =
     (let norm_yh = row_norm yh; norm_y = row_norm y; mul_norms = fmul norm_yh norm_y
      in fdiv (row_dot yh y) mul_norms)"

text \<open>\<^verbatim>\<open>d_yh = (y / mul_norms) - (cosine * (yh / norm_yh ** 2))\<close>, a row.\<close>

definition d_yh_row :: "fl list \<Rightarrow> fl list \<Rightarrow> fl list" where
  "d_yh_row yh y =
     (let norm_yh = row_norm yh; norm_y = row_norm y; mul_norms = fmul norm_yh norm_y;
          cosine = fdiv (row_dot yh y) mul_norms
      in map2 (\<lambda>a b. fsub (fdiv b mul_norms)
                           (fmul cosine (fdiv a (fmul norm_yh norm_yh)))) yh y)"

text \<open>\<^verbatim>\<open>zero_indices = xp.abs(truths).sum(axis=1) == 0\<close>: one truth value a row.\<close>

definition zero_indices :: "floats2d \<Rightarrow> bool list" where
  "zero_indices t = map (\<lambda>r. sum_list (map abs r) = 0) (rows t)"

text \<open>\<^verbatim>\<open>a[zero_indices] = 0\<close>: the rows selected are set to zero.\<close>

definition set_rows_zero :: "bool list \<Rightarrow> fl list list \<Rightarrow> fl list list" where
  "set_rows_zero zs rs = map2 (\<lambda>z r. if z then map (\<lambda>_. Finite 0) r else r) zs rs"

definition CosineDistance_get_similarity ::
  "CosineDistance \<Rightarrow> floats2d \<Rightarrow> floats2d \<Rightarrow> error + fl array2d" where
  "CosineDistance_get_similarity self guesses t =
     (if shape guesses \<noteq> shape t then Inl (ValueError CosineShapes)
      else
        (let yh = map shift_row (rows guesses);
             y = map shift_row (rows t)
         in Inr \<lparr>ncols = 1, rows = map2 (\<lambda>a b. [cosine_row a b]) yh y\<rparr>))"

definition CosineDistance_get_grad ::
  "CosineDistance \<Rightarrow> floats2d \<Rightarrow> floats2d \<Rightarrow> error + fl array2d" where
  "CosineDistance_get_grad self guesses t =
     (if shape guesses \<noteq> shape t then Inl (ValueError CosineShapes)
      else
        (let yh = map shift_row (rows guesses);
             y = map shift_row (rows t);
             d_yh = map2 d_yh_row yh y;
             d_yh = (if ignore_zeros self then set_rows_zero (zero_indices t) d_yh else d_yh);
             d_yh = (if cos_normalize self
                     then map (map (\<lambda>x. fdiv x (Finite (real (fst (shape guesses)))))) d_yh
                     else d_yh)
         in Inr \<lparr>ncols = ncols guesses, rows = map (map fneg) d_yh\<rparr>))"

text \<open>The array \<^verbatim>\<open>losses\<close> of \<^verbatim>\<open>get_loss\<close> before it is summed: one row of one value for a
  row of the batch.\<close>

definition CosineDistance_losses ::
  "CosineDistance \<Rightarrow> floats2d \<Rightarrow> floats2d \<Rightarrow> fl array2d \<Rightarrow> fl array2d" where
  "CosineDistance_losses self guesses t cosine =
     (let losses = map (map (\<lambda>c. fabs (fsub c (Finite 1)))) (rows cosine);
          losses = (if ignore_zeros self then set_rows_zero (zero_indices t) losses else losses);
          losses = (if cos_normalize self
                    then map (map (\<lambda>x. fdiv x (Finite (real (fst (shape guesses)))))) losses
                    else losses)
      in \<lparr>ncols = 1, rows = losses\<rparr>)"

definition CosineDistance_get_loss ::
  "CosineDistance \<Rightarrow> floats2d \<Rightarrow> floats2d \<Rightarrow> error + fl" where
  "CosineDistance_get_loss self guesses t =
     (if shape guesses \<noteq> shape t then Inl (ValueError CosineShapes)
      else
        (case CosineDistance_get_similarity self guesses t of
           Inl e \<Rightarrow> Inl e
         | Inr cosine \<Rightarrow> Inr (fsum (concat (rows (CosineDistance_losses self guesses t cosine))))))"

definition CosineDistance_call ::
  "CosineDistance \<Rightarrow> floats2d \<Rightarrow> floats2d \<Rightarrow> error + (fl array2d \<times> fl)" where
  "CosineDistance_call self guesses t =
     (case CosineDistance_get_grad self guesses t of
        Inl e \<Rightarrow> Inl e
      | Inr g \<Rightarrow>
          (case CosineDistance_get_loss self guesses t of
             Inl e \<Rightarrow> Inl e
           | Inr l \<Rightarrow> Inr (g, l)))"

text \<open>
  The sum of the absolute values of the elements of a gradient of the cosine kernel:
  the quantity the specification compares the cosine loss with.
\<close>

definition sum_abs :: "fl array2d \<Rightarrow> fl" where
  "sum_abs a = fsum (map fabs (concat (rows a)))"

text \<open>
  The loss of one row of a batch of \<open>n\<close> rows in the words of the specification: the
  distance \<open>\<bar>cosine - 1\<bar>\<close> of the similarity of the shifted rows from 1; 0 where
  \<^verbatim>\<open>ignore_zeros\<close> is set and the truth row is zero; divided by the batch size when
  normalizing.
\<close>

definition row_loss :: "CosineDistance \<Rightarrow> nat \<Rightarrow> real list \<Rightarrow> real list \<Rightarrow> fl" where
  "row_loss self n g_row t_row =
     (let distance = (if ignore_zeros self \<and> list_all (\<lambda>x. x = 0) t_row then Finite 0
                      else fabs (fsub (cosine_row (shift_row g_row) (shift_row t_row)) (Finite 1)))
      in if cos_normalize self then fdiv distance (Finite (real n)) else distance)"

subsection \<open>The methods as state transformers of the receiver\<close>

text \<open>
  A call \<^verbatim>\<open>k.method(args)\<close> runs the body with \<^verbatim>\<open>self\<close> bound to the kernel object; the
  body can read and assign the attributes of the object, and the object stays as the
  body left it, also when the body raises. A method is a function from the object
  before the call to the result and the object after it. Its body is built from
  \<^item> \<open>returns v\<close> and \<open>raises e\<close>, the ends of the body;
  \<^item> \<open>then_do m f\<close>, the statements \<open>m\<close> followed by the rest \<open>f\<close> of the body, which
    is skipped when \<open>m\<close> raises;
  \<^item> \<open>read_attr a\<close>, the read \<^verbatim>\<open>self.a\<close>, and \<open>write_attr upd\<close>, an assignment
    \<^verbatim>\<open>self.a = v\<close>;
  \<^item> \<open>local_value r\<close>, a computation on values of the call alone: its arguments and
    the arrays made inside it (\<^verbatim>\<open>difference\<close>, \<^verbatim>\<open>d_yh\<close>, \<^verbatim>\<open>losses\<close>, \<^verbatim>\<open>mask\<close>).
\<close>

type_synonym ('s, 'a) transformer = "'s \<Rightarrow> (error + 'a) \<times> 's"

definition returns :: "'a \<Rightarrow> ('s, 'a) transformer" where
  "returns v = (\<lambda>s. (Inr v, s))"

definition raises :: "error \<Rightarrow> ('s, 'a) transformer" where
  "raises e = (\<lambda>s. (Inl e, s))"

definition then_do :: "('s, 'a) transformer \<Rightarrow> ('a \<Rightarrow> ('s, 'b) transformer) \<Rightarrow> ('s, 'b) transformer" where
  "then_do m f = (\<lambda>s. case m s of (Inl e, s') \<Rightarrow> (Inl e, s') | (Inr v, s') \<Rightarrow> f v s')"

definition read_attr :: "('s \<Rightarrow> 'a) \<Rightarrow> ('s, 'a) transformer" where
  "read_attr a = (\<lambda>s. (Inr (a s), s))"

definition write_attr :: "('s \<Rightarrow> 's) \<Rightarrow> ('s, unit) transformer" where
  "write_attr upd = (\<lambda>s. (Inr (), upd s))"

definition local_value :: "error + 'a \<Rightarrow> ('s, 'a) transformer" where
  "local_value r = (\<lambda>s. (r, s))"

text \<open>\<^verbatim>\<open>CategoricalCrossentropy.__init__\<close>: three assignments.\<close>

definition CategoricalCrossentropy_init_st ::
  "bool \<Rightarrow> string list option \<Rightarrow> (CategoricalCrossentropy, unit) transformer" where
  "CategoricalCrossentropy_init_st nrm ns =
     then_do (write_attr (\<lambda>s. s\<lparr>normalize := nrm\<rparr>)) (\<lambda>_.
     then_do (write_attr (\<lambda>s. s\<lparr>names := ns\<rparr>)) (\<lambda>_.
     then_do (read_attr names) (\<lambda>current.
       case current of
         Some l \<Rightarrow> write_attr (\<lambda>s. s\<lparr>name_to_i := Some (build_name_to_i l)\<rparr>)
       | None \<Rightarrow> write_attr (\<lambda>s. s\<lparr>name_to_i := None\<rparr>))))"

text \<open>\<^verbatim>\<open>convert_truths\<close>: reads \<^verbatim>\<open>self.names\<close> and \<^verbatim>\<open>self._name_to_i\<close>.\<close>

definition convert_truths_st ::
  "truths \<Rightarrow> floats2d \<Rightarrow> (CategoricalCrossentropy, floats2d) transformer" where
  "convert_truths_st t guesses =
     (let n_classes = snd (shape guesses) in
      case t of
        Floats2d a \<Rightarrow> returns a
      | Ints1d labels \<Rightarrow> returns (to_categorical labels n_classes)
      | ListInt labels \<Rightarrow> returns (to_categorical labels n_classes)
      | ListStr strs \<Rightarrow>
          (if strs \<noteq> [] then
             then_do (read_attr names) (\<lambda>current.
               case current of
                 None \<Rightarrow> raises (ValueError NoNames)
               | Some _ \<Rightarrow>
                   then_do (read_attr name_to_i) (\<lambda>table.
                     case table of
                       None \<Rightarrow> raises TypeError
                     | Some d \<Rightarrow>
                         then_do (local_value (lookup_all d strs)) (\<lambda>labels.
                           returns (to_categorical labels n_classes))))
           else returns (to_categorical [] n_classes)))"

text \<open>\<^verbatim>\<open>get_grad\<close>: calls \<^verbatim>\<open>self.convert_truths\<close> and reads \<^verbatim>\<open>self.normalize\<close>.\<close>

definition CategoricalCrossentropy_get_grad_st ::
  "floats2d \<Rightarrow> truths \<Rightarrow> missing option \<Rightarrow> (CategoricalCrossentropy, floats2d) transformer" where
  "CategoricalCrossentropy_get_grad_st guesses t mis =
     then_do (convert_truths_st t guesses) (\<lambda>target.
       if shape guesses \<noteq> shape target then raises (ValueError CCShapes)
       else if (of_bool (any2d guesses) :: int) > 1 \<or> (of_bool (any2d guesses) :: int) < 0
         then raises (ValueError GuessesInterval)
       else if (of_bool (any2d target) :: int) > 1 \<or> (of_bool (any2d target) :: int) < 0
         then raises (ValueError TruthsInterval)
       else
         then_do (local_value
                    (case mis of
                       None \<Rightarrow> Inr (zip2d (-) guesses target)
                     | Some m \<Rightarrow>
                         (case make_mask m (shape guesses) of
                            Inl e \<Rightarrow> Inl e
                          | Inr msk \<Rightarrow>
                              imul (zip2d (-) guesses target) (map2d (\<lambda>x. 1 - x) msk))))
           (\<lambda>difference.
              then_do (read_attr normalize) (\<lambda>nrm.
                returns (if nrm
                         then map2d (\<lambda>x. x / real (fst (shape guesses))) difference
                         else difference))))"

definition get_loss_from_grad_st :: "floats2d \<Rightarrow> (CategoricalCrossentropy, real) transformer" where
  "get_loss_from_grad_st d_truth = returns (sum_squares d_truth)"

definition CategoricalCrossentropy_get_loss_st ::
  "floats2d \<Rightarrow> truths \<Rightarrow> missing option \<Rightarrow> (CategoricalCrossentropy, real) transformer" where
  "CategoricalCrossentropy_get_loss_st guesses t mis =
     then_do (CategoricalCrossentropy_get_grad_st guesses t mis) (\<lambda>d_truth.
       get_loss_from_grad_st d_truth)"

definition CategoricalCrossentropy_call_st ::
  "floats2d \<Rightarrow> truths \<Rightarrow> missing option
     \<Rightarrow> (CategoricalCrossentropy, floats2d \<times> real) transformer" where
  "CategoricalCrossentropy_call_st guesses t mis =
     then_do (CategoricalCrossentropy_get_grad_st guesses t mis) (\<lambda>d_truth.
       then_do (get_loss_from_grad_st d_truth) (\<lambda>loss. returns (d_truth, loss)))"

text \<open>
  \<^verbatim>\<open>SequenceCategoricalCrossentropy\<close>. \<^verbatim>\<open>__init__\<close> assigns \<^verbatim>\<open>self.cc\<close>; a call
  \<^verbatim>\<open>self.cc.method(...)\<close> runs on the object in \<^verbatim>\<open>self.cc\<close>, which stays as that call
  left it.
\<close>

definition SequenceCategoricalCrossentropy_init_st ::
  "bool \<Rightarrow> string list option \<Rightarrow> (SequenceCategoricalCrossentropy, unit) transformer" where
  "SequenceCategoricalCrossentropy_init_st nrm ns =
     write_attr (\<lambda>s. s\<lparr>cc := CategoricalCrossentropy_init nrm ns\<rparr>)"

definition on_cc ::
  "(CategoricalCrossentropy, 'a) transformer \<Rightarrow> (SequenceCategoricalCrossentropy, 'a) transformer" where
  "on_cc m = (\<lambda>s. case m (cc s) of (r, inner) \<Rightarrow> (r, s\<lparr>cc := inner\<rparr>))"

fun zip_loop_st ::
  "('a \<Rightarrow> 'b \<Rightarrow> ('s, 'c) transformer) \<Rightarrow> 'a list \<Rightarrow> 'b list \<Rightarrow> ('s, 'c list) transformer" where
  "zip_loop_st f (yh # gs) (y # ts) =
     then_do (f yh y) (\<lambda>v. then_do (zip_loop_st f gs ts) (\<lambda>vs. returns (v # vs)))"
| "zip_loop_st f _ _ = returns []"

definition SequenceCategoricalCrossentropy_get_grad_st ::
  "floats2d list \<Rightarrow> truths list \<Rightarrow> (SequenceCategoricalCrossentropy, floats2d list) transformer" where
  "SequenceCategoricalCrossentropy_get_grad_st guesses ts =
     (if length guesses \<noteq> length ts then raises (ValueError SeqLength)
      else zip_loop_st (\<lambda>yh y. on_cc (CategoricalCrossentropy_get_grad_st yh y None)) guesses ts)"

definition SequenceCategoricalCrossentropy_get_loss_st ::
  "floats2d list \<Rightarrow> truths list \<Rightarrow> (SequenceCategoricalCrossentropy, real list) transformer" where
  "SequenceCategoricalCrossentropy_get_loss_st guesses ts =
     zip_loop_st (\<lambda>yh y. on_cc (CategoricalCrossentropy_get_loss_st yh y None)) guesses ts"

definition SequenceCategoricalCrossentropy_call_st ::
  "floats2d list \<Rightarrow> truths list
     \<Rightarrow> (SequenceCategoricalCrossentropy, floats2d list \<times> real list) transformer" where
  "SequenceCategoricalCrossentropy_call_st guesses ts =
     then_do (SequenceCategoricalCrossentropy_get_grad_st guesses ts) (\<lambda>grads.
       then_do (SequenceCategoricalCrossentropy_get_loss_st guesses ts) (\<lambda>losses.
         returns (grads, losses)))"

text \<open>\<^verbatim>\<open>L2Distance\<close>: \<^verbatim>\<open>__init__\<close> assigns \<^verbatim>\<open>self.normalize\<close>, \<^verbatim>\<open>get_grad\<close> reads it.\<close>

definition L2Distance_init_st :: "bool \<Rightarrow> (L2Distance, unit) transformer" where
  "L2Distance_init_st nrm = write_attr (\<lambda>s. s\<lparr>l2_normalize := nrm\<rparr>)"

definition L2Distance_get_grad_st :: "floats2d \<Rightarrow> floats2d \<Rightarrow> (L2Distance, floats2d) transformer" where
  "L2Distance_get_grad_st guesses t =
     (if shape guesses \<noteq> shape t then raises (ValueError L2Shapes)
      else
        (let difference = zip2d (-) guesses t in
         then_do (read_attr l2_normalize) (\<lambda>nrm.
           returns (if nrm
                    then map2d (\<lambda>x. x / real (fst (shape guesses))) difference
                    else difference))))"

definition L2Distance_get_loss_st :: "floats2d \<Rightarrow> floats2d \<Rightarrow> (L2Distance, real) transformer" where
  "L2Distance_get_loss_st guesses t =
     (if shape guesses \<noteq> shape t then raises (ValueError L2Shapes)
      else then_do (L2Distance_get_grad_st guesses t) (\<lambda>d_truth. returns (sum_squares d_truth)))"

definition L2Distance_call_st ::
  "floats2d \<Rightarrow> floats2d \<Rightarrow> (L2Distance, floats2d \<times> real) transformer" where
  "L2Distance_call_st guesses t =
     then_do (L2Distance_get_grad_st guesses t) (\<lambda>g.
       then_do (L2Distance_get_loss_st guesses t) (\<lambda>l. returns (g, l)))"

text \<open>
  \<^verbatim>\<open>CosineDistance\<close>: \<^verbatim>\<open>__init__\<close> assigns the two flags. \<^verbatim>\<open>get_grad\<close> reads
  \<^verbatim>\<open>self.ignore_zeros\<close> twice, before and after the gradient is computed, and binds
  \<^verbatim>\<open>zero_indices\<close> at the first read only; a second read that found the flag set where
  the first did not would meet an unbound name, a \<^verbatim>\<open>NameError\<close>.
\<close>

definition CosineDistance_init_st :: "bool \<Rightarrow> bool \<Rightarrow> (CosineDistance, unit) transformer" where
  "CosineDistance_init_st nrm iz =
     then_do (write_attr (\<lambda>s. s\<lparr>cos_normalize := nrm\<rparr>)) (\<lambda>_.
       write_attr (\<lambda>s. s\<lparr>ignore_zeros := iz\<rparr>))"

definition CosineDistance_get_similarity_st ::
  "floats2d \<Rightarrow> floats2d \<Rightarrow> (CosineDistance, fl array2d) transformer" where
  "CosineDistance_get_similarity_st guesses t =
     (if shape guesses \<noteq> shape t then raises (ValueError CosineShapes)
      else
        (let yh = map shift_row (rows guesses);
             y = map shift_row (rows t)
         in returns \<lparr>ncols = 1, rows = map2 (\<lambda>a b. [cosine_row a b]) yh y\<rparr>))"

definition CosineDistance_get_grad_st ::
  "floats2d \<Rightarrow> floats2d \<Rightarrow> (CosineDistance, fl array2d) transformer" where
  "CosineDistance_get_grad_st guesses t =
     (if shape guesses \<noteq> shape t then raises (ValueError CosineShapes)
      else
        then_do (read_attr ignore_zeros) (\<lambda>iz1.
          let bound = (if iz1 then Some (zero_indices t) else None);
              yh = map shift_row (rows guesses);
              y = map shift_row (rows t);
              d_yh = map2 d_yh_row yh y
          in then_do (read_attr ignore_zeros) (\<lambda>iz2.
               then_do (local_value
                          (if iz2
                           then (case bound of
                                   Some zs \<Rightarrow> Inr (set_rows_zero zs d_yh)
                                 | None \<Rightarrow> Inl NameError)
                           else Inr d_yh))
                 (\<lambda>d_yh.
                    then_do (read_attr cos_normalize) (\<lambda>nrm.
                      let d_yh = (if nrm
                                  then map (map (\<lambda>x. fdiv x (Finite (real (fst (shape guesses))))))
                                         d_yh
                                  else d_yh)
                      in returns \<lparr>ncols = ncols guesses, rows = map (map fneg) d_yh\<rparr>)))))"

definition CosineDistance_get_loss_st ::
  "floats2d \<Rightarrow> floats2d \<Rightarrow> (CosineDistance, fl) transformer" where
  "CosineDistance_get_loss_st guesses t =
     (if shape guesses \<noteq> shape t then raises (ValueError CosineShapes)
      else
        then_do (CosineDistance_get_similarity_st guesses t) (\<lambda>cosine.
          let losses = map (map (\<lambda>c. fabs (fsub c (Finite 1)))) (rows cosine)
          in then_do (read_attr ignore_zeros) (\<lambda>iz.
               let losses = (if iz then set_rows_zero (zero_indices t) losses else losses)
               in then_do (read_attr cos_normalize) (\<lambda>nrm.
                    let losses = (if nrm
                                  then map (map (\<lambda>x. fdiv x (Finite (real (fst (shape guesses))))))
                                         losses
                                  else losses)
                    in returns (fsum (concat losses))))))"

definition CosineDistance_call_st ::
  "floats2d \<Rightarrow> floats2d \<Rightarrow> (CosineDistance, fl array2d \<times> fl) transformer" where
  "CosineDistance_call_st guesses t =
     then_do (CosineDistance_get_grad_st guesses t) (\<lambda>g.
       then_do (CosineDistance_get_loss_st guesses t) (\<lambda>l. returns (g, l)))"

text \<open>Two calls one after the other: the second runs on the receiver the first left.\<close>

definition twice :: "('s \<Rightarrow> 'r \<times> 's) \<Rightarrow> 's \<Rightarrow> ('r \<times> 'r) \<times> 's" where
  "twice m self =
     (case m self of (r1, self1) \<Rightarrow> (case m self1 of (r2, self2) \<Rightarrow> ((r1, r2), self2)))"

section \<open>Facts about the arrays\<close>
















section \<open>Facts about the mask builder and the converter\<close>



lemma dom_fold_enumerate:
  "dom (fold (\<lambda>(i, name) m. m(name \<mapsto> int i)) (enumerate k ns) m0) = dom m0 \<union> set ns"
  by (induction ns arbitrary: k m0) auto

lemma dom_build_name_to_i: "dom (build_name_to_i ns) = set ns"
  by (simp add: build_name_to_i_def dom_fold_enumerate)

lemma lookup_all_absent:
  "find (\<lambda>s. s \<notin> dom d) strs = Some name \<Longrightarrow> lookup_all d strs = Inl (KeyError name)"
  by (induction strs) (auto simp: domIff split: if_splits option.splits)

lemma interval_test_false:
  "\<not> ((of_bool b :: int) > 1 \<or> (of_bool b :: int) < 0)"
  by (cases b) simp_all

lemma lookup_all_error: "lookup_all d strs = Inl e \<Longrightarrow> \<exists>name. e = KeyError name"
  by (induction strs arbitrary: e) (auto split: option.splits sum.splits)

lemma convert_truths_error:
  "convert_truths self t g = Inl e \<Longrightarrow> e = ValueError NoNames \<or> e = TypeError \<or> (\<exists>name. e = KeyError name)"
  by (auto simp: convert_truths_def Let_def dest: lookup_all_error
      split: truths.splits if_splits option.splits sum.splits)

lemma get_grad_never_interval:
  "CategoricalCrossentropy_get_grad self g t mis \<noteq> Inl (ValueError GuessesInterval) \<and>
   CategoricalCrossentropy_get_grad self g t mis \<noteq> Inl (ValueError TruthsInterval)"
proof (cases "convert_truths self t g")
  case (Inl e)
  with convert_truths_error [OF Inl] show ?thesis
    by (auto simp: CategoricalCrossentropy_get_grad_def)
next
  case (Inr target)
  then show ?thesis
    by (auto simp: CategoricalCrossentropy_get_grad_def interval_test_false make_mask_def
        assign_rows_def imul_def
        split: option.splits sum.splits missing.splits if_splits)
qed

lemma one_hot_2: "one_hot 2 i = [if i = 0 then 1 else 0, if i = 1 then 1 else 0]"
  by (simp add: one_hot_def numeral_2_eq_2)

lemma one_hot_nth: "j < n \<Longrightarrow> one_hot n i ! j = (if int j = i then 1 else 0)"
  by (simp add: one_hot_def)

section \<open>Facts about the masked gradient\<close>



section \<open>Facts about the range of the floats and the cosine of a row\<close>


lemma rng_in: "\<bar>x\<bar> \<le> flt_max \<Longrightarrow> rng x = Finite x"
  by (simp add: rng_def)


lemma fsum_single: "fsum [Finite a] = rng a"
  by (simp add: fsum_def)

lemma row_norm_single: "x * x \<le> flt_max \<Longrightarrow> row_norm [Finite x] = Finite \<bar>x\<bar>"
  by (simp add: row_norm_def fsum_def rng_in)











lemma sum_abs_zero_iff: "sum_list (map abs r) = (0::real) \<longleftrightarrow> list_all (\<lambda>x. x = 0) r"
proof (induction r)
  case Nil
  then show ?case by simp
next
  case (Cons a r)
  have nn: "0 \<le> sum_list (map abs r)" by (rule sum_list_nonneg) auto
  have "\<bar>a\<bar> + sum_list (map abs r) = 0 \<longleftrightarrow> \<bar>a\<bar> = 0 \<and> sum_list (map abs r) = 0"
    using nn by (intro add_nonneg_eq_0_iff) simp_all
  with Cons show ?case by simp
qed

lemma zero_indices_nth:
  "i < length (rows t) \<Longrightarrow> zero_indices t ! i = list_all (\<lambda>x. x = 0) (rows t ! i)"
  by (simp add: zero_indices_def sum_abs_zero_iff)

lemma set_rows_zero_nth:
  "i < length zs \<Longrightarrow> i < length rs \<Longrightarrow>
     set_rows_zero zs rs ! i = (if zs ! i then map (\<lambda>_. Finite 0) (rs ! i) else rs ! i)"
  by (simp add: set_rows_zero_def)

lemma length_set_rows_zero: "length (set_rows_zero zs rs) = min (length zs) (length rs)"
  by (simp add: set_rows_zero_def)

lemma length_zero_indices: "length (zero_indices t) = length (rows t)"
  by (simp add: zero_indices_def)



text \<open>The rows of the array \<^verbatim>\<open>losses\<close> are the losses of the rows of the batch.\<close>

lemma losses_rows:
  assumes sh: "shape g = shape t"
    and c: "CosineDistance_get_similarity self g t = Inr c"
  shows "rows (CosineDistance_losses self g t c)
           = map2 (\<lambda>a b. [row_loss self (length (rows g)) a b]) (rows g) (rows t)"
proof -
  have lt: "length (rows t) = length (rows g)" using sh by (simp add: shape_def)
  have rc: "rows c = map2 (\<lambda>a b. [cosine_row a b]) (map shift_row (rows g)) (map shift_row (rows t))"
    using sh c by (auto simp: CosineDistance_get_similarity_def Let_def)
  show ?thesis
  proof (rule nth_equalityI)
    show "length (rows (CosineDistance_losses self g t c))
            = length (map2 (\<lambda>a b. [row_loss self (length (rows g)) a b]) (rows g) (rows t))"
      using lt
      by (simp add: CosineDistance_losses_def Let_def rc length_set_rows_zero length_zero_indices)
  next
    fix i assume "i < length (rows (CosineDistance_losses self g t c))"
    then have i: "i < length (rows g)"
      using lt
      by (simp add: CosineDistance_losses_def Let_def rc length_set_rows_zero length_zero_indices
          split: if_splits)
    then show "rows (CosineDistance_losses self g t c) ! i
            = map2 (\<lambda>a b. [row_loss self (length (rows g)) a b]) (rows g) (rows t) ! i"
      using lt
      by (simp add: CosineDistance_losses_def Let_def rc set_rows_zero_nth length_zero_indices
          length_set_rows_zero zero_indices_nth row_loss_def shape_def del: fdiv.simps)
  qed
qed

lemma concat_singletons: "concat (map2 (\<lambda>a b. [f a b]) xs ys) = map2 f xs ys"
  by (induction xs arbitrary: ys) (auto split: list.splits simp: zip_Cons1)

lemma cosine_loss_rows:
  assumes sh: "shape g = shape t"
  shows "CosineDistance_get_loss self g t
           = Inr (fsum (map2 (row_loss self (length (rows g))) (rows g) (rows t)))"
proof -
  obtain c where c: "CosineDistance_get_similarity self g t = Inr c"
    using sh by (simp add: CosineDistance_get_similarity_def)
  show ?thesis
    using sh c by (simp add: CosineDistance_get_loss_def losses_rows [OF sh c] concat_singletons)
qed


lemma row_dot_single: "row_dot [Finite a] [Finite b] = fadd (Finite 0) (rng (a * b))"
  by (simp add: row_dot_def fsum_def)




section \<open>The methods as functions of the receiver\<close>

lemmas transformer_defs = returns_def raises_def then_do_def read_attr_def write_attr_def local_value_def

lemma convert_truths_st_eq: "convert_truths_st t g s = (convert_truths s t g, s)"
  by (simp add: convert_truths_st_def convert_truths_def transformer_defs Let_def
      split: truths.splits option.splits sum.splits)

lemma CC_get_grad_st_eq:
  "CategoricalCrossentropy_get_grad_st g t mis s = (CategoricalCrossentropy_get_grad s g t mis, s)"
  by (simp add: CategoricalCrossentropy_get_grad_st_def CategoricalCrossentropy_get_grad_def
      then_do_def convert_truths_st_eq returns_def raises_def read_attr_def local_value_def
      split: sum.splits option.splits)

lemma CC_get_loss_st_eq:
  "CategoricalCrossentropy_get_loss_st g t mis s = (CategoricalCrossentropy_get_loss s g t mis, s)"
  by (simp add: CategoricalCrossentropy_get_loss_st_def CategoricalCrossentropy_get_loss_def
      then_do_def CC_get_grad_st_eq get_loss_from_grad_st_def get_loss_from_grad_def returns_def
      split: sum.splits)

lemma CC_call_st_eq:
  "CategoricalCrossentropy_call_st g t mis s = (CategoricalCrossentropy_call s g t mis, s)"
  by (simp add: CategoricalCrossentropy_call_st_def CategoricalCrossentropy_call_def
      then_do_def CC_get_grad_st_eq get_loss_from_grad_st_def get_loss_from_grad_def returns_def
      split: sum.splits)

lemma CC_init_st_eq:
  "CategoricalCrossentropy_init_st nrm ns s = (Inr (), CategoricalCrossentropy_init nrm ns)"
  by (cases ns) (simp_all add: CategoricalCrossentropy_init_st_def CategoricalCrossentropy_init_def
      then_do_def write_attr_def read_attr_def)

lemma zip_loop_st_eq:
  assumes "\<And>a b. f a b s = (h a b, s)"
  shows "zip_loop_st f gs ts s = (zip_loop h gs ts, s)"
proof (induction gs arbitrary: ts)
  case Nil
  then show ?case by (simp add: returns_def)
next
  case (Cons a gs)
  show ?case
  proof (cases ts)
    case Nil
    then show ?thesis by (simp add: returns_def)
  next
    case (Cons b ts')
    with Cons.IH [of ts'] assms [of a b] show ?thesis
      by (simp add: then_do_def returns_def split: sum.splits)
  qed
qed

lemma on_cc_eq: "m (cc s) = (r, cc s) \<Longrightarrow> on_cc m s = (r, s)"
  by (simp add: on_cc_def)

lemma Seq_get_grad_st_eq:
  "SequenceCategoricalCrossentropy_get_grad_st gs ts s
     = (SequenceCategoricalCrossentropy_get_grad s gs ts, s)"
  by (simp add: SequenceCategoricalCrossentropy_get_grad_st_def
      SequenceCategoricalCrossentropy_get_grad_def raises_def
      zip_loop_st_eq [where h = "\<lambda>yh y. CategoricalCrossentropy_get_grad (cc s) yh y None"]
      on_cc_eq CC_get_grad_st_eq)

lemma Seq_get_loss_st_eq:
  "SequenceCategoricalCrossentropy_get_loss_st gs ts s
     = (SequenceCategoricalCrossentropy_get_loss s gs ts, s)"
  by (simp add: SequenceCategoricalCrossentropy_get_loss_st_def
      SequenceCategoricalCrossentropy_get_loss_def
      zip_loop_st_eq [where h = "\<lambda>yh y. CategoricalCrossentropy_get_loss (cc s) yh y None"]
      on_cc_eq CC_get_loss_st_eq)

lemma Seq_call_st_eq:
  "SequenceCategoricalCrossentropy_call_st gs ts s
     = (SequenceCategoricalCrossentropy_call s gs ts, s)"
  by (simp add: SequenceCategoricalCrossentropy_call_st_def SequenceCategoricalCrossentropy_call_def
      then_do_def Seq_get_grad_st_eq Seq_get_loss_st_eq returns_def split: sum.splits)

lemma L2_get_grad_st_eq: "L2Distance_get_grad_st g t s = (L2Distance_get_grad s g t, s)"
  by (simp add: L2Distance_get_grad_st_def L2Distance_get_grad_def transformer_defs Let_def)

lemma L2_get_loss_st_eq: "L2Distance_get_loss_st g t s = (L2Distance_get_loss s g t, s)"
  by (simp add: L2Distance_get_loss_st_def L2Distance_get_loss_def then_do_def
      L2_get_grad_st_eq returns_def raises_def split: sum.splits)

lemma L2_call_st_eq: "L2Distance_call_st g t s = (L2Distance_call s g t, s)"
  by (simp add: L2Distance_call_st_def L2Distance_call_def then_do_def
      L2_get_grad_st_eq L2_get_loss_st_eq returns_def split: sum.splits)

lemma Cos_get_similarity_st_eq:
  "CosineDistance_get_similarity_st g t s = (CosineDistance_get_similarity s g t, s)"
  by (simp add: CosineDistance_get_similarity_st_def CosineDistance_get_similarity_def
      transformer_defs Let_def)

lemma Cos_get_grad_st_eq: "CosineDistance_get_grad_st g t s = (CosineDistance_get_grad s g t, s)"
  by (simp add: CosineDistance_get_grad_st_def CosineDistance_get_grad_def transformer_defs Let_def)

lemma Cos_get_loss_st_eq: "CosineDistance_get_loss_st g t s = (CosineDistance_get_loss s g t, s)"
  by (simp add: CosineDistance_get_loss_st_def CosineDistance_get_loss_def
      CosineDistance_losses_def then_do_def Cos_get_similarity_st_eq read_attr_def returns_def
      raises_def Let_def split: sum.splits)

lemma Cos_call_st_eq: "CosineDistance_call_st g t s = (CosineDistance_call s g t, s)"
  by (simp add: CosineDistance_call_st_def CosineDistance_call_def then_do_def
      Cos_get_grad_st_eq Cos_get_loss_st_eq returns_def split: sum.splits)

section \<open>The claims\<close>

text \<open>
  C1. The claim: for every kernel the loss is the sum of the squares (for the cosine
  kernel, of the absolute values) of the elements of the gradient. It fails for the
  cosine kernel: with the default configuration, the guesses \<open>[[1]]\<close> and the truths
  \<open>[[-1]]\<close>, the gradient is \<open>[[0]]\<close>, whose absolute values sum to 0, and the loss
  is 2.
\<close>

theorem C1_counterexample:
  "CosineDistance_get_grad (CosineDistance_init True False)
     \<lparr>ncols = 1, rows = [[1]]\<rparr> \<lparr>ncols = 1, rows = [[-1]]\<rparr>
     = Inr \<lparr>ncols = 1, rows = [[Finite 0]]\<rparr> \<and>
   sum_abs \<lparr>ncols = 1, rows = [[Finite 0]]\<rparr> = Finite 0 \<and>
   CosineDistance_get_loss (CosineDistance_init True False)
     \<lparr>ncols = 1, rows = [[1]]\<rparr> \<lparr>ncols = 1, rows = [[-1]]\<rparr> = Inr (Finite 2)"
  by (simp add: CosineDistance_get_grad_def CosineDistance_get_loss_def
      CosineDistance_get_similarity_def CosineDistance_losses_def cosine_row_def
      CosineDistance_init_def shape_def d_yh_row_def sum_abs_def fsum_def shift_row_def
      row_norm_single row_dot_single eps_def fsub_def rng_def flt_max_def)

text \<open>
  C1, as amended. For \<^verbatim>\<open>CategoricalCrossentropy\<close> and \<^verbatim>\<open>L2Distance\<close>, wherever \<^verbatim>\<open>get_grad\<close>
  returns a tensor \<^verbatim>\<open>get_loss\<close> returns the sum of the squares of its elements, and
  where \<^verbatim>\<open>get_grad\<close> raises \<^verbatim>\<open>get_loss\<close> raises the same. For \<^verbatim>\<open>CosineDistance\<close> on
  inputs of one shape the loss is the sum over the rows of the batch of
  \<open>\<bar>cosine - 1\<bar>\<close>, taken as 0 on a zero truth row when \<^verbatim>\<open>ignore_zeros\<close> is set and
  divided by the batch size when normalizing (\<open>row_loss\<close>): it is made from the
  similarity and not from the gradient.
\<close>

theorem C1_loss_from_grad:
  "(CategoricalCrossentropy_get_grad self g t mis = Inr d \<longrightarrow>
      CategoricalCrossentropy_get_loss self g t mis = Inr (sum_squares d)) \<and>
   (CategoricalCrossentropy_get_grad self g t mis = Inl e \<longrightarrow>
      CategoricalCrossentropy_get_loss self g t mis = Inl e) \<and>
   (L2Distance_get_grad l2 g t2 = Inr d2 \<longrightarrow>
      L2Distance_get_loss l2 g t2 = Inr (sum_squares d2)) \<and>
   (L2Distance_get_grad l2 g t2 = Inl e2 \<longrightarrow> L2Distance_get_loss l2 g t2 = Inl e2) \<and>
   (shape g = shape t3 \<longrightarrow>
      CosineDistance_get_loss cs g t3
        = Inr (fsum (map2 (row_loss cs (length (rows g))) (rows g) (rows t3))))"
proof -
  have cc_l2:
    "(CategoricalCrossentropy_get_grad self g t mis = Inr d \<longrightarrow>
        CategoricalCrossentropy_get_loss self g t mis = Inr (sum_squares d)) \<and>
     (CategoricalCrossentropy_get_grad self g t mis = Inl e \<longrightarrow>
        CategoricalCrossentropy_get_loss self g t mis = Inl e) \<and>
     (L2Distance_get_grad l2 g t2 = Inr d2 \<longrightarrow>
        L2Distance_get_loss l2 g t2 = Inr (sum_squares d2)) \<and>
     (L2Distance_get_grad l2 g t2 = Inl e2 \<longrightarrow> L2Distance_get_loss l2 g t2 = Inl e2)"
    by (auto simp: CategoricalCrossentropy_get_loss_def get_loss_from_grad_def
        L2Distance_get_loss_def L2Distance_get_grad_def split: if_splits)
  with cosine_loss_rows [of g t3 cs] show ?thesis by blast
qed

text \<open>
  An instance of each kernel; for the cosine kernel a batch of two rows with
  \<^verbatim>\<open>normalize\<close> and \<^verbatim>\<open>ignore_zeros\<close>, the second truth row zero: the loss is
  \<open>\<bar>-1 - 1\<bar> / 2 + 0\<close>.
\<close>

theorem C1_loss_from_grad_witness:
  "CategoricalCrossentropy_get_grad (CategoricalCrossentropy_init True None)
       \<lparr>ncols = 2, rows = [[1, 0]]\<rparr> (Ints1d [1]) None = Inr \<lparr>ncols = 2, rows = [[1, - 1]]\<rparr> \<and>
   CategoricalCrossentropy_get_loss (CategoricalCrossentropy_init True None)
       \<lparr>ncols = 2, rows = [[1, 0]]\<rparr> (Ints1d [1]) None = Inr 2 \<and>
   L2Distance_get_grad (L2Distance_init False)
       \<lparr>ncols = 2, rows = [[1, 0]]\<rparr> \<lparr>ncols = 2, rows = [[0, 2]]\<rparr>
     = Inr \<lparr>ncols = 2, rows = [[1, - 2]]\<rparr> \<and>
   L2Distance_get_loss (L2Distance_init False)
       \<lparr>ncols = 2, rows = [[1, 0]]\<rparr> \<lparr>ncols = 2, rows = [[0, 2]]\<rparr> = Inr 5 \<and>
   shape \<lparr>ncols = 1, rows = [[1], [3::real]]\<rparr> = shape \<lparr>ncols = 1, rows = [[- 1], [0::real]]\<rparr> \<and>
   CosineDistance_get_loss (CosineDistance_init True True)
       \<lparr>ncols = 1, rows = [[1], [3]]\<rparr> \<lparr>ncols = 1, rows = [[- 1], [0]]\<rparr> = Inr (Finite 1)"
proof -
  have g1: "CategoricalCrossentropy_get_grad (CategoricalCrossentropy_init True None)
       \<lparr>ncols = 2, rows = [[1, 0]]\<rparr> (Ints1d [1]) None = Inr \<lparr>ncols = 2, rows = [[1, - 1]]\<rparr>"
    by (simp add: CategoricalCrossentropy_get_grad_def convert_truths_def shape_def
        CategoricalCrossentropy_init_def zip2d_def map2d_def any2d_def to_categorical_def
        one_hot_2)
  have g2: "L2Distance_get_grad (L2Distance_init False)
       \<lparr>ncols = 2, rows = [[1, 0]]\<rparr> \<lparr>ncols = 2, rows = [[0, 2]]\<rparr>
     = Inr \<lparr>ncols = 2, rows = [[1, - 2]]\<rparr>"
    by (simp add: L2Distance_get_grad_def L2Distance_init_def shape_def zip2d_def)
  have s1: "sum_squares \<lparr>ncols = 2, rows = [[1, - 1]]\<rparr> = 2"
    and s2: "sum_squares \<lparr>ncols = 2, rows = [[1, - 2]]\<rparr> = 5"
    by (simp_all add: sum_squares_def)
  have sh: "shape \<lparr>ncols = 1, rows = [[1], [3::real]]\<rparr>
      = shape \<lparr>ncols = 1, rows = [[- 1], [0::real]]\<rparr>"
    by (simp add: shape_def)
  have r0: "row_loss (CosineDistance_init True True) (Suc (Suc 0)) [1] [- 1] = Finite 1"
    and r1: "row_loss (CosineDistance_init True True) (Suc (Suc 0)) [3] [0] = Finite 0"
    by (simp_all add: row_loss_def CosineDistance_init_def cosine_row_def shift_row_def eps_def
        row_norm_single row_dot_single fsub_def rng_def flt_max_def)
  have total: "fsum [Finite 1, Finite 0] = Finite 1"
    by (simp add: fsum_def rng_def flt_max_def)
  from C1_loss_from_grad [of "CategoricalCrossentropy_init True None"
      "\<lparr>ncols = 2, rows = [[1, 0]]\<rparr>" "Ints1d [1]" None "\<lparr>ncols = 2, rows = [[1, - 1]]\<rparr>"
      _ "L2Distance_init False" "\<lparr>ncols = 2, rows = [[0, 2]]\<rparr>" "\<lparr>ncols = 2, rows = [[1, - 2]]\<rparr>"]
    g1 g2 s1 s2
  have a: "CategoricalCrossentropy_get_loss (CategoricalCrossentropy_init True None)
       \<lparr>ncols = 2, rows = [[1, 0]]\<rparr> (Ints1d [1]) None = Inr 2"
    and b: "L2Distance_get_loss (L2Distance_init False)
       \<lparr>ncols = 2, rows = [[1, 0]]\<rparr> \<lparr>ncols = 2, rows = [[0, 2]]\<rparr> = Inr 5"
    by simp_all
  from C1_loss_from_grad [of _ "\<lparr>ncols = 1, rows = [[1], [3]]\<rparr>" _ _ _ _ _ _ _ _
      "\<lparr>ncols = 1, rows = [[- 1], [0]]\<rparr>" "CosineDistance_init True True"] sh
  have c: "CosineDistance_get_loss (CosineDistance_init True True)
       \<lparr>ncols = 1, rows = [[1], [3]]\<rparr> \<lparr>ncols = 1, rows = [[- 1], [0]]\<rparr> = Inr (Finite 1)"
    by (simp add: r0 r1 total)
  from g1 a g2 b sh c show ?thesis by simp
qed

text \<open>
  C2. The claim: a call of \<^verbatim>\<open>CategoricalCrossentropy.get_grad\<close> whose guesses or converted
  truths hold a value outside \<open>[0, 1]\<close> fails with the range error. The source tests
  \<^verbatim>\<open>guesses.any() > 1 or guesses.any() < 0\<close>, a comparison of a truth value with 1 and
  0 that is never true, where its message speaks of "guesses outside the [0,1]
  interval". With the default configuration, the guesses \<open>[[2]]\<close> and the dense truths
  \<open>[[1]]\<close>, the call returns the gradient \<open>[[1]]\<close> and raises nothing; and no call
  of \<^verbatim>\<open>get_grad\<close> raises either of the two errors of the interval.
\<close>

theorem C2_interval_check_passes:
  "CategoricalCrossentropy_get_grad (CategoricalCrossentropy_init True None)
     \<lparr>ncols = 1, rows = [[2]]\<rparr> (Floats2d \<lparr>ncols = 1, rows = [[1]]\<rparr>) None
   = Inr \<lparr>ncols = 1, rows = [[1]]\<rparr> \<and>
   CategoricalCrossentropy_get_grad self g t mis \<noteq> Inl (ValueError GuessesInterval) \<and>
   CategoricalCrossentropy_get_grad self g t mis \<noteq> Inl (ValueError TruthsInterval)"
proof -
  have "CategoricalCrossentropy_get_grad (CategoricalCrossentropy_init True None)
     \<lparr>ncols = 1, rows = [[2]]\<rparr> (Floats2d \<lparr>ncols = 1, rows = [[1]]\<rparr>) None
   = Inr \<lparr>ncols = 1, rows = [[1]]\<rparr>"
    by (simp add: CategoricalCrossentropy_get_grad_def convert_truths_def shape_def
        CategoricalCrossentropy_init_def zip2d_def map2d_def any2d_def)
  with get_grad_never_interval [of self g t mis] show ?thesis by simp
qed

theorem C3_get_loss_truncates:
  "SequenceCategoricalCrossentropy_get_loss (SequenceCategoricalCrossentropy_init True None)
     [\<lparr>ncols = 2, rows = [[1, 0]]\<rparr>, \<lparr>ncols = 2, rows = [[0, 1]]\<rparr>] [Ints1d [1]]
   = Inr [2] \<and>
   SequenceCategoricalCrossentropy_get_grad (SequenceCategoricalCrossentropy_init True None)
     [\<lparr>ncols = 2, rows = [[1, 0]]\<rparr>, \<lparr>ncols = 2, rows = [[0, 1]]\<rparr>] [Ints1d [1]]
   = Inl (ValueError SeqLength)"
  by (simp add: SequenceCategoricalCrossentropy_get_loss_def
      SequenceCategoricalCrossentropy_get_grad_def CategoricalCrossentropy_get_loss_def
      CategoricalCrossentropy_get_grad_def convert_truths_def shape_def
      SequenceCategoricalCrossentropy_init_def CategoricalCrossentropy_init_def zip2d_def
      map2d_def any2d_def to_categorical_def one_hot_2 get_loss_from_grad_def
      sum_squares_def)

text \<open>
  C4. The claim: string truths with a label that is absent from the names raise the
  same configuration error as string truths without names. The lookup
  \<^verbatim>\<open>self._name_to_i[name]\<close> of an absent label raises a \<^verbatim>\<open>KeyError\<close>, which is not the
  \<^verbatim>\<open>ValueError\<close> of the missing names.
\<close>

theorem C4_counterexample:
  "convert_truths (CategoricalCrossentropy_init True (Some [''dog'', ''cat'']))
     (ListStr [''bird'']) \<lparr>ncols = 2, rows = [[1, 0]]\<rparr> = Inl (KeyError ''bird'') \<and>
   CategoricalCrossentropy_get_grad (CategoricalCrossentropy_init True (Some [''dog'', ''cat'']))
     \<lparr>ncols = 2, rows = [[1, 0]]\<rparr> (ListStr [''bird'']) None = Inl (KeyError ''bird'') \<and>
   KeyError ''bird'' \<noteq> ValueError NoNames"
  by (simp add: convert_truths_def CategoricalCrossentropy_get_grad_def
      CategoricalCrossentropy_init_def build_name_to_i_def enumerate_eq_zip)

text \<open>
  C4, as amended. For a list of string truths that is not empty: a kernel built without
  names raises the \<^verbatim>\<open>ValueError\<close> of the missing names; a kernel built with names raises a
  \<^verbatim>\<open>KeyError\<close> with the first label of the list that is not among the names. Both are
  raised by the conversion of the truths, before any arithmetic, from \<^verbatim>\<open>get_grad\<close>,
  \<^verbatim>\<open>get_loss\<close> and \<^verbatim>\<open>__call__\<close>.
\<close>

theorem C4_string_truths_errors:
  "strs \<noteq> [] \<Longrightarrow>
     convert_truths (CategoricalCrossentropy_init nrm None) (ListStr strs) g
       = Inl (ValueError NoNames) \<and>
     CategoricalCrossentropy_get_grad (CategoricalCrossentropy_init nrm None) g (ListStr strs) mis
       = Inl (ValueError NoNames) \<and>
     CategoricalCrossentropy_get_loss (CategoricalCrossentropy_init nrm None) g (ListStr strs) mis
       = Inl (ValueError NoNames) \<and>
     CategoricalCrossentropy_call (CategoricalCrossentropy_init nrm None) g (ListStr strs) mis
       = Inl (ValueError NoNames) \<and>
     (\<forall>name. find (\<lambda>s. s \<notin> set ns) strs = Some name \<longrightarrow>
        convert_truths (CategoricalCrossentropy_init nrm (Some ns)) (ListStr strs) g
          = Inl (KeyError name) \<and>
        CategoricalCrossentropy_get_grad (CategoricalCrossentropy_init nrm (Some ns)) g (ListStr strs) mis
          = Inl (KeyError name) \<and>
        CategoricalCrossentropy_get_loss (CategoricalCrossentropy_init nrm (Some ns)) g (ListStr strs) mis
          = Inl (KeyError name) \<and>
        CategoricalCrossentropy_call (CategoricalCrossentropy_init nrm (Some ns)) g (ListStr strs) mis
          = Inl (KeyError name))"
  using lookup_all_absent [of "build_name_to_i ns" strs]
  by (simp add: convert_truths_def CategoricalCrossentropy_get_grad_def
      CategoricalCrossentropy_get_loss_def CategoricalCrossentropy_call_def
      CategoricalCrossentropy_init_def dom_build_name_to_i)

theorem C4_string_truths_errors_witness:
  "[''cat'', ''bird''] \<noteq> ([] :: string list) \<and>
   find (\<lambda>s. s \<notin> set [''dog'', ''cat'']) [''cat'', ''bird''] = Some ''bird'' \<and>
   CategoricalCrossentropy_get_grad (CategoricalCrossentropy_init True None)
     \<lparr>ncols = 2, rows = [[1, 0], [0, 1]]\<rparr> (ListStr [''cat'', ''bird'']) None
     = Inl (ValueError NoNames) \<and>
   CategoricalCrossentropy_get_grad (CategoricalCrossentropy_init True (Some [''dog'', ''cat'']))
     \<lparr>ncols = 2, rows = [[1, 0], [0, 1]]\<rparr> (ListStr [''cat'', ''bird'']) None
     = Inl (KeyError ''bird'')"
proof -
  have ne: "[''cat'', ''bird''] \<noteq> ([] :: string list)" by simp
  have f: "find (\<lambda>s. s \<notin> set [''dog'', ''cat'']) [''cat'', ''bird''] = Some ''bird''" by simp
  from C4_string_truths_errors [OF ne, of True "\<lparr>ncols = 2, rows = [[1, 0], [0, 1]]\<rparr>" None
      "[''dog'', ''cat'']"] ne f
  show ?thesis by blast
qed



text \<open>
  C6. Integer labels, given as an array or as a list, are converted to the dense array
  with one row a label and the column count of the predictions, whose row for a label
  \<open>i\<close> among the classes (\<open>0 \<le> i < n_classes\<close>) has 1 at position \<open>i\<close> and 0
  elsewhere. Truths of the rank of the predictions are returned unchanged, so
  converting the result of a conversion gives that result again.
\<close>

theorem C6_convert_truths:
  "(\<exists>d. convert_truths self (Ints1d labels) g = Inr d \<and>
        convert_truths self (ListInt labels) g = Inr d \<and>
        shape d = (length labels, ncols g) \<and> wf2d d \<and>
        (\<forall>k < length labels. 0 \<le> labels ! k \<and> labels ! k < int (ncols g) \<longrightarrow>
           rows d ! k ! nat (labels ! k) = 1 \<and>
           (\<forall>j < ncols g. j \<noteq> nat (labels ! k) \<longrightarrow> rows d ! k ! j = 0))) \<and>
   convert_truths self (Floats2d a) g = Inr a \<and>
   (\<forall>d. convert_truths self t g = Inr d \<longrightarrow> convert_truths self (Floats2d d) g = Inr d)"
  by (simp add: convert_truths_def to_categorical_def shape_def one_hot_nth Let_def
      wf2d_def list_all_iff)
     (auto simp add: one_hot_def)

theorem C6_convert_truths_witness:
  "convert_truths (CategoricalCrossentropy_init True None) (Ints1d [1, 0])
     \<lparr>ncols = 2, rows = [[1, 0], [0, 1]]\<rparr> = Inr \<lparr>ncols = 2, rows = [[0, 1], [1, 0]]\<rparr> \<and>
   convert_truths (CategoricalCrossentropy_init True None)
     (Floats2d \<lparr>ncols = 2, rows = [[0, 1], [1, 0]]\<rparr>)
     \<lparr>ncols = 2, rows = [[1, 0], [0, 1]]\<rparr> = Inr \<lparr>ncols = 2, rows = [[0, 1], [1, 0]]\<rparr>"
proof -
  have conv: "convert_truths (CategoricalCrossentropy_init True None) (Ints1d [1, 0])
     \<lparr>ncols = 2, rows = [[1, 0], [0, 1]]\<rparr> = Inr \<lparr>ncols = 2, rows = [[0, 1], [1, 0]]\<rparr>"
    by (simp add: convert_truths_def to_categorical_def one_hot_2 shape_def)
  from C6_convert_truths [of "CategoricalCrossentropy_init True None" "[1, 0]"
      "\<lparr>ncols = 2, rows = [[1, 0], [0, 1]]\<rparr>" _ "Ints1d [1, 0]"] conv
  show ?thesis by blast
qed




text \<open>
  C8. Every call of \<^verbatim>\<open>get_grad\<close>, \<^verbatim>\<open>get_loss\<close>, \<^verbatim>\<open>get_similarity\<close> or \<^verbatim>\<open>__call__\<close> leaves the
  kernel as it was: run as a state transformer of the receiver, each method body ends
  with the receiver it started with, so the flags, the names and the table of names
  after the call are those before it, which \<^verbatim>\<open>__init__\<close> set. The result of a call is
  the value of the method as a function of the configuration and the inputs, so a
  second call with the same inputs returns what the first returned.
\<close>

theorem C8_configuration_unchanged:
  "CategoricalCrossentropy_get_grad_st g t mis k1
     = (CategoricalCrossentropy_get_grad k1 g t mis, k1) \<and>
   CategoricalCrossentropy_get_loss_st g t mis k1
     = (CategoricalCrossentropy_get_loss k1 g t mis, k1) \<and>
   CategoricalCrossentropy_call_st g t mis k1
     = (CategoricalCrossentropy_call k1 g t mis, k1) \<and>
   SequenceCategoricalCrossentropy_get_grad_st gs ts k2
     = (SequenceCategoricalCrossentropy_get_grad k2 gs ts, k2) \<and>
   SequenceCategoricalCrossentropy_get_loss_st gs ts k2
     = (SequenceCategoricalCrossentropy_get_loss k2 gs ts, k2) \<and>
   SequenceCategoricalCrossentropy_call_st gs ts k2
     = (SequenceCategoricalCrossentropy_call k2 gs ts, k2) \<and>
   L2Distance_get_grad_st g a k3 = (L2Distance_get_grad k3 g a, k3) \<and>
   L2Distance_get_loss_st g a k3 = (L2Distance_get_loss k3 g a, k3) \<and>
   L2Distance_call_st g a k3 = (L2Distance_call k3 g a, k3) \<and>
   CosineDistance_get_similarity_st g a k4 = (CosineDistance_get_similarity k4 g a, k4) \<and>
   CosineDistance_get_grad_st g a k4 = (CosineDistance_get_grad k4 g a, k4) \<and>
   CosineDistance_get_loss_st g a k4 = (CosineDistance_get_loss k4 g a, k4) \<and>
   CosineDistance_call_st g a k4 = (CosineDistance_call k4 g a, k4) \<and>
   snd (CategoricalCrossentropy_init_st nrm ns k1) = CategoricalCrossentropy_init nrm ns \<and>
   snd (SequenceCategoricalCrossentropy_init_st nrm ns k2)
     = SequenceCategoricalCrossentropy_init nrm ns \<and>
   snd (L2Distance_init_st nrm k3) = L2Distance_init nrm \<and>
   snd (CosineDistance_init_st nrm iz k4) = CosineDistance_init nrm iz \<and>
   twice (CategoricalCrossentropy_get_grad_st g t mis) k1
     = ((CategoricalCrossentropy_get_grad k1 g t mis,
         CategoricalCrossentropy_get_grad k1 g t mis), k1) \<and>
   twice (CategoricalCrossentropy_get_loss_st g t mis) k1
     = ((CategoricalCrossentropy_get_loss k1 g t mis,
         CategoricalCrossentropy_get_loss k1 g t mis), k1) \<and>
   twice (CategoricalCrossentropy_call_st g t mis) k1
     = ((CategoricalCrossentropy_call k1 g t mis,
         CategoricalCrossentropy_call k1 g t mis), k1) \<and>
   twice (SequenceCategoricalCrossentropy_get_grad_st gs ts) k2
     = ((SequenceCategoricalCrossentropy_get_grad k2 gs ts,
         SequenceCategoricalCrossentropy_get_grad k2 gs ts), k2) \<and>
   twice (SequenceCategoricalCrossentropy_get_loss_st gs ts) k2
     = ((SequenceCategoricalCrossentropy_get_loss k2 gs ts,
         SequenceCategoricalCrossentropy_get_loss k2 gs ts), k2) \<and>
   twice (SequenceCategoricalCrossentropy_call_st gs ts) k2
     = ((SequenceCategoricalCrossentropy_call k2 gs ts,
         SequenceCategoricalCrossentropy_call k2 gs ts), k2) \<and>
   twice (L2Distance_get_grad_st g a) k3
     = ((L2Distance_get_grad k3 g a, L2Distance_get_grad k3 g a), k3) \<and>
   twice (L2Distance_get_loss_st g a) k3
     = ((L2Distance_get_loss k3 g a, L2Distance_get_loss k3 g a), k3) \<and>
   twice (L2Distance_call_st g a) k3
     = ((L2Distance_call k3 g a, L2Distance_call k3 g a), k3) \<and>
   twice (CosineDistance_get_similarity_st g a) k4
     = ((CosineDistance_get_similarity k4 g a, CosineDistance_get_similarity k4 g a), k4) \<and>
   twice (CosineDistance_get_grad_st g a) k4
     = ((CosineDistance_get_grad k4 g a, CosineDistance_get_grad k4 g a), k4) \<and>
   twice (CosineDistance_get_loss_st g a) k4
     = ((CosineDistance_get_loss k4 g a, CosineDistance_get_loss k4 g a), k4) \<and>
   twice (CosineDistance_call_st g a) k4
     = ((CosineDistance_call k4 g a, CosineDistance_call k4 g a), k4)"
proof -
  have inits:
    "snd (CategoricalCrossentropy_init_st nrm ns k1) = CategoricalCrossentropy_init nrm ns"
    "snd (SequenceCategoricalCrossentropy_init_st nrm ns k2)
       = SequenceCategoricalCrossentropy_init nrm ns"
    "snd (L2Distance_init_st nrm k3) = L2Distance_init nrm"
    "snd (CosineDistance_init_st nrm iz k4) = CosineDistance_init nrm iz"
    by (simp_all add: CC_init_st_eq SequenceCategoricalCrossentropy_init_st_def
        SequenceCategoricalCrossentropy_init_def L2Distance_init_st_def L2Distance_init_def
        CosineDistance_init_st_def CosineDistance_init_def then_do_def write_attr_def)
  show ?thesis
    unfolding twice_def
    by (simp only: CC_get_grad_st_eq CC_get_loss_st_eq CC_call_st_eq Seq_get_grad_st_eq
        Seq_get_loss_st_eq Seq_call_st_eq L2_get_grad_st_eq L2_get_loss_st_eq L2_call_st_eq
        Cos_get_similarity_st_eq Cos_get_grad_st_eq Cos_get_loss_st_eq Cos_call_st_eq inits
        prod.case simp_thms)
qed

text \<open>
  C9. For every kernel, also one built without names, the empty list as truths does not
  raise the error of the missing names: the string branch asks for a list that is not
  empty, so the empty list becomes an empty array of labels, and its one-hot expansion
  is the dense array of no rows, with the column count of the predictions.
\<close>

theorem C9_empty_list:
  "convert_truths self (ListStr []) g = Inr \<lparr>ncols = ncols g, rows = []\<rparr> \<and>
   convert_truths self (ListInt []) g = Inr \<lparr>ncols = ncols g, rows = []\<rparr> \<and>
   convert_truths (CategoricalCrossentropy_init nrm None) (ListStr []) g
     = Inr (to_categorical [] (ncols g)) \<and>
   shape (to_categorical [] (ncols g)) = (0, ncols g)"
  by (simp add: convert_truths_def to_categorical_def shape_def)

text \<open>
  C10. A \<^verbatim>\<open>missing\<close> argument that is a float array is returned by \<^verbatim>\<open>_make_mask\<close> as it
  is, whatever the \<^verbatim>\<open>shape\<close> argument: the shape is used in the other branch only. So
  \<^verbatim>\<open>get_grad\<close> multiplies the difference by one minus that very array, also when its
  shape is not the shape of the predictions.
\<close>

theorem C10_float_mask_unchecked:
  "make_mask (MissingFloats m) s = Inr m \<and>
   (convert_truths self t g = Inr target \<and> shape g = shape target \<longrightarrow>
      CategoricalCrossentropy_get_grad self g t (Some (MissingFloats m)) =
        (case imul (zip2d (-) g target) (map2d (\<lambda>x. 1 - x) m) of
           Inl e \<Rightarrow> Inl e
         | Inr difference \<Rightarrow>
             Inr (if normalize self
                  then map2d (\<lambda>x. x / real (fst (shape g))) difference
                  else difference)))"
  by (simp add: make_mask_def CategoricalCrossentropy_get_grad_def)

text \<open>A mask of shape (1, 1) for predictions of shape (2, 2): it is broadcast.\<close>

theorem C10_float_mask_unchecked_witness:
  "make_mask (MissingFloats \<lparr>ncols = 1, rows = [[1]]\<rparr>) (2, 2) = Inr \<lparr>ncols = 1, rows = [[1]]\<rparr> \<and>
   shape \<lparr>ncols = 1, rows = [[1::real]]\<rparr> \<noteq> (2, 2) \<and>
   CategoricalCrossentropy_get_grad (CategoricalCrossentropy_init False None)
     \<lparr>ncols = 2, rows = [[1, 0], [0, 1]]\<rparr> (Ints1d [1, 1])
     (Some (MissingFloats \<lparr>ncols = 1, rows = [[1]]\<rparr>))
   = Inr \<lparr>ncols = 2, rows = [[0, 0], [0, 0]]\<rparr>"
proof -
  have conv: "convert_truths (CategoricalCrossentropy_init False None) (Ints1d [1, 1])
      \<lparr>ncols = 2, rows = [[1, 0], [0, 1]]\<rparr> = Inr \<lparr>ncols = 2, rows = [[0, 1], [0, 1]]\<rparr>"
    by (simp add: convert_truths_def to_categorical_def one_hot_2 shape_def)
  have sh: "shape \<lparr>ncols = 2, rows = [[1, 0], [0, 1::real]]\<rparr>
      = shape \<lparr>ncols = 2, rows = [[0, 1], [0, 1::real]]\<rparr>"
    by (simp add: shape_def)
  show ?thesis
    using C10_float_mask_unchecked [of "\<lparr>ncols = 1, rows = [[1]]\<rparr>" "(2, 2)"
        "CategoricalCrossentropy_init False None" "Ints1d [1, 1]"
        "\<lparr>ncols = 2, rows = [[1, 0], [0, 1]]\<rparr>" "\<lparr>ncols = 2, rows = [[0, 1], [0, 1]]\<rparr>"] conv sh
    by (simp add: imul_def broadcastable_def broadcast_to_def stretch_def shape_def zip2d_def
        map2d_def CategoricalCrossentropy_init_def numeral_2_eq_2)
qed

end
